theory Spec2Isabelle
  imports Complex_Main
begin

section \<open>Simon Says: the game script \<^verbatim>\<open>src/index.js\<close>\<close>

text \<open>
  The script keeps four global variables (the two sequences and the two counters), a
  constant table of pads, and talks to the page through element text, class lists,
  \<^verbatim>\<open>alert\<close>, audio playback and \<^verbatim>\<open>setTimeout\<close>. The model threads one record
  holding all of that through every function. A callback handed to \<^verbatim>\<open>setTimeout\<close> is
  kept as a pending task with its delay; the event loop runs it later.
\<close>

subsection \<open>JavaScript values\<close>

text \<open>
  The values that reach \<^verbatim>\<open>setLevel\<close> and \<^verbatim>\<open>maxRoundCount\<close>. Numbers are the
  integer-valued ones; \<open>JBuiltin k\<close> is the object found under the property name \<open>k\<close>
  of \<^verbatim>\<open>Object.prototype\<close>.
\<close>

datatype jsval =
    JUndefined
  | JNull
  | JBool bool
  | JNum int
  | JStr string
  | JBuiltin string

definition digit_char :: "nat \<Rightarrow> char" where
  "digit_char d = ''0123456789'' ! (d mod 10)"

fun decimal :: "nat \<Rightarrow> string" where
  "decimal n = (if n < 10 then [digit_char n] else decimal (n div 10) @ [digit_char n])"

declare decimal.simps [simp del]

definition int_toString :: "int \<Rightarrow> string" where
  "int_toString i = (if i < 0 then CHR ''-'' # decimal (nat (- i)) else decimal (nat i))"

text \<open>\<^verbatim>\<open>String(v)\<close>, as a template literal and a property access apply it.\<close>

definition js_toString :: "jsval \<Rightarrow> string" where
  "js_toString v =
     (case v of
        JUndefined \<Rightarrow> ''undefined''
      | JNull \<Rightarrow> ''null''
      | JBool b \<Rightarrow> (if b then ''true'' else ''false'')
      | JNum i \<Rightarrow> int_toString i
      | JStr s \<Rightarrow> s
      | JBuiltin k \<Rightarrow>
          (if k = ''__proto__'' then ''[object Object]''
           else if k = ''constructor'' then ''function Object() { [native code] }''
           else ''function '' @ k @ ''() { [native code] }''))"

text \<open>Truthiness, as \<^verbatim>\<open>!v\<close> and \<^verbatim>\<open>if (v)\<close> read it.\<close>

definition truthy :: "jsval \<Rightarrow> bool" where
  "truthy v =
     (case v of
        JUndefined \<Rightarrow> False
      | JNull \<Rightarrow> False
      | JBool b \<Rightarrow> b
      | JNum i \<Rightarrow> i \<noteq> 0
      | JStr s \<Rightarrow> s \<noteq> []
      | JBuiltin k \<Rightarrow> True)"

text \<open>
  The property names every plain object inherits from \<^verbatim>\<open>Object.prototype\<close>. An
  object literal such as \<^verbatim>\<open>levelMap\<close> answers \<^verbatim>\<open>levelMap[k]\<close> for its own keys
  first and for these names next.
\<close>

definition objectPrototypeKeys :: "string list" where
  "objectPrototypeKeys =
     [''constructor'', ''hasOwnProperty'', ''isPrototypeOf'', ''propertyIsEnumerable'',
      ''toLocaleString'', ''toString'', ''valueOf'', ''__proto__'',
      ''__defineGetter__'', ''__defineSetter__'', ''__lookupGetter__'',
      ''__lookupSetter__'']"

text \<open>\<^verbatim>\<open>obj[key]\<close> on an object literal with the given own entries.\<close>

definition js_get :: "(string \<times> jsval) list \<Rightarrow> jsval \<Rightarrow> jsval" where
  "js_get own key =
     (let k = js_toString key in
      case map_of own k of
        Some v \<Rightarrow> v
      | None \<Rightarrow> (if k \<in> set objectPrototypeKeys then JBuiltin k else JUndefined))"

text \<open>\<^verbatim>\<open>xs[i]\<close> on an array: \<open>None\<close> stands for \<^verbatim>\<open>undefined\<close> past the end.\<close>

definition js_index :: "'a list \<Rightarrow> nat \<Rightarrow> 'a option" where
  "js_index xs i = (if i < length xs then Some (xs ! i) else None)"

subsection \<open>The page and the globals\<close>

datatype node =
    StartButton
  | StatusSpan
  | Heading
  | PadContainer
  | PadElement string
  | OtherElement nat

record pad =
  color :: string
  selector :: node
  sound :: string

datatype task =
    ActivatePad string
  | RemoveActivated node
  | PlayHumanTurn
  | PlayComputerTurn

record game =
  computerSequence :: "string list"
  playerSequence :: "string list"
  maxRoundCount :: jsval
  roundCount :: nat
  pads :: "pad list"
  textContent :: "node \<Rightarrow> string"
  classList :: "node \<Rightarrow> string set"
  alerts :: "string list"
  played :: "string list"
  timers :: "(nat \<times> task) list"

datatype js_error = TypeError

datatype completion = Returned | Thrown js_error

text \<open>The \<^verbatim>\<open>pads\<close> table of the script.\<close>

definition fourPads :: "pad list" where
  "fourPads =
     [\<lparr>color = ''red'', selector = PadElement ''red'',
       sound = ''../assets/simon-says-sound-1.mp3''\<rparr>,
      \<lparr>color = ''green'', selector = PadElement ''green'',
       sound = ''../assets/simon-says-sound-2.mp3''\<rparr>,
      \<lparr>color = ''blue'', selector = PadElement ''blue'',
       sound = ''../assets/simon-says-sound-3.mp3''\<rparr>,
      \<lparr>color = ''yellow'', selector = PadElement ''yellow'',
       sound = ''../assets/simon-says-sound-4.mp3''\<rparr>]"

text \<open>
  The state the script's top level leaves: empty sequences, both counters \<open>0\<close>. The
  markup is not part of the script, so the page starts here with no text and no class.
\<close>

definition initialGame :: game where
  "initialGame =
     \<lparr>computerSequence = [], playerSequence = [], maxRoundCount = JNum 0, roundCount = 0,
      pads = fourPads, textContent = (\<lambda>_. []), classList = (\<lambda>_. {}), alerts = [],
      played = [], timers = []\<rparr>"

definition classAdd :: "node \<Rightarrow> string \<Rightarrow> game \<Rightarrow> game" where
  "classAdd n c s = s\<lparr>classList := (classList s)(n := insert c (classList s n))\<rparr>"

definition classRemove :: "node \<Rightarrow> string \<Rightarrow> game \<Rightarrow> game" where
  "classRemove n c s = s\<lparr>classList := (classList s)(n := classList s n - {c})\<rparr>"

definition setTimeout :: "task \<Rightarrow> nat \<Rightarrow> game \<Rightarrow> game" where
  "setTimeout t ms s = s\<lparr>timers := timers s @ [(ms, t)]\<rparr>"

subsection \<open>Helper functions\<close>

definition levelMap :: "(string \<times> jsval) list" where
  "levelMap = [(''1'', JNum 8), (''2'', JNum 14), (''3'', JNum 20), (''4'', JNum 31)]"

text \<open>
  \<^verbatim>\<open>setLevel(level = 1)\<close>: an absent or \<^verbatim>\<open>undefined\<close> argument takes the default.
  The result is the returned value and the state.
\<close>

definition setLevel :: "jsval \<Rightarrow> game \<Rightarrow> jsval \<times> game" where
  "setLevel arg s =
     (let level = (if arg = JUndefined then JNum 1 else arg) in
      if \<not> truthy (js_get levelMap level)
      then (JStr ''Please enter level 1, 2, 3, or 4'', s)
      else (js_get levelMap level, s\<lparr>maxRoundCount := js_get levelMap level\<rparr>))"

datatype 'a jsref = Null | Undefined | Ref 'a

text \<open>
  \<^verbatim>\<open>getRandomItem(collection)\<close>, with the value of \<^verbatim>\<open>Math.random()\<close> as the
  argument \<open>r\<close>. The product is taken in the reals; the code rounds it to a double,
  which is the same number for the four pads of the script (a product by \<open>4\<close> is
  exact) and can differ by one index for other lengths.
\<close>

definition getRandomItem :: "real \<Rightarrow> 'a list \<Rightarrow> 'a jsref" where
  "getRandomItem r collection =
     (if length collection = 0 then Null
      else
        (let randomIndex = \<lfloor>r * real (length collection)\<rfloor> in
         if 0 \<le> randomIndex \<and> randomIndex < int (length collection)
         then Ref (collection ! nat randomIndex)
         else Undefined))"

text \<open>
  The first argument of \<^verbatim>\<open>setText\<close>: one element, or a \<^verbatim>\<open>NodeList\<close>, an
  \<^verbatim>\<open>HTMLCollection\<close> or an array of elements.
\<close>

datatype target =
    Element node
  | NodeList "node list"
  | HTMLCollection "node list"
  | Array "node list"

text \<open>
  \<^verbatim>\<open>setText(element, text)\<close> returns an object with the one field
  \<^verbatim>\<open>textContent\<close>; the model returns that field, \<open>None\<close> for \<^verbatim>\<open>undefined\<close>.
\<close>

definition setTextFirst :: "node list \<Rightarrow> string \<Rightarrow> game \<Rightarrow> string option \<times> game" where
  "setTextFirst element text s =
     (if length element = 0 then (None, s)
      else (Some text, s\<lparr>textContent := (textContent s)(element ! 0 := text)\<rparr>))"

definition setText :: "target \<Rightarrow> string \<Rightarrow> game \<Rightarrow> string option \<times> game" where
  "setText element text s =
     (case element of
        NodeList ns \<Rightarrow> setTextFirst ns text s
      | HTMLCollection ns \<Rightarrow> setTextFirst ns text s
      | Array ns \<Rightarrow> setTextFirst ns text s
      | Element n \<Rightarrow> (Some text, s\<lparr>textContent := (textContent s)(n := text)\<rparr>))"

text \<open>
  \<^verbatim>\<open>pad.sound.play()\<close> stands in a \<^verbatim>\<open>try\<close> whose \<^verbatim>\<open>catch\<close> is empty, here and in
  \<^verbatim>\<open>padHandler\<close>: a failure of the audio device goes no further. The model records
  the request in \<open>played\<close>.
\<close>

definition activatePad :: "string \<Rightarrow> game \<Rightarrow> game" where
  "activatePad c s =
     (case find (\<lambda>p. color p = c) (pads s) of
        None \<Rightarrow> s
      | Some p \<Rightarrow>
          setTimeout (RemoveActivated (selector p)) 500
            ((classAdd (selector p) ''activated'' s)\<lparr>played := played s @ [sound p]\<rparr>))"

definition activatePads :: "string list \<Rightarrow> game \<Rightarrow> game" where
  "activatePads sequence s =
     s\<lparr>timers := timers s @
          map (\<lambda>(index, c). ((index + 1) * 600, ActivatePad c))
            (zip [0 ..< length sequence] sequence)\<rparr>"

definition resetGame :: "string \<Rightarrow> game \<Rightarrow> game" where
  "resetGame text s =
     (let s1 = s\<lparr>computerSequence := [], playerSequence := [], roundCount := 0,
                 maxRoundCount := JNum 0\<rparr>;
          s2 = s1\<lparr>alerts := alerts s1 @ [text]\<rparr>;
          s3 = snd (setText (Element Heading) ''Simon Says'' s2);
          s4 = classRemove StartButton ''hidden'' s3;
          s5 = classAdd StatusSpan ''hidden'' s4
      in classAdd PadContainer ''unclickable'' s5)"

definition playHumanTurn :: "game \<Rightarrow> game" where
  "playHumanTurn s =
     (let s1 = classRemove PadContainer ''unclickable'' s;
          pressesLeft = int (length (computerSequence s1)) - int (length (playerSequence s1))
      in snd (setText (Element StatusSpan)
               (''Player's turn... '' @ int_toString pressesLeft @ '' presses left'') s1))"

text \<open>
  \<^verbatim>\<open>playComputerTurn()\<close>. \<^verbatim>\<open>randomPad.color\<close> throws a \<^verbatim>\<open>TypeError\<close> when
  \<^verbatim>\<open>getRandomItem\<close> gave \<^verbatim>\<open>null\<close> or \<^verbatim>\<open>undefined\<close>; the statements before it have
  run by then, the ones after it have not.
\<close>

definition playComputerTurn :: "real \<Rightarrow> game \<Rightarrow> completion \<times> game" where
  "playComputerTurn r s =
     (let s1 = classAdd PadContainer ''unclickable'' s;
          s2 = snd (setText (Element StatusSpan) ''The computer's turn...'' s1);
          s3 = snd (setText (Element Heading)
                 (''Round '' @ decimal (roundCount s2) @ '' of '' @
                  js_toString (maxRoundCount s2)) s2)
      in case getRandomItem r (pads s3) of
           Ref randomPad \<Rightarrow>
             (let s4 = s3\<lparr>computerSequence := computerSequence s3 @ [color randomPad]\<rparr>;
                  s5 = activatePads (computerSequence s4) s4
              in (Returned, setTimeout PlayHumanTurn (roundCount s5 * 600 + 1000) s5))
         | _ \<Rightarrow> (Thrown TypeError, s3))"

definition checkRound :: "game \<Rightarrow> game" where
  "checkRound s =
     (if JNum (int (length (computerSequence s))) = maxRoundCount s
      then resetGame ''You win! Great memory!'' s
      else
        (let s1 = s\<lparr>roundCount := roundCount s + 1, playerSequence := []\<rparr>;
             s2 = snd (setText (Element StatusSpan) ''Nice! Keep going!'' s1)
         in setTimeout PlayComputerTurn 1000 s2))"

definition checkPress :: "string \<Rightarrow> game \<Rightarrow> game" where
  "checkPress c s =
     (let s1 = s\<lparr>playerSequence := playerSequence s @ [c]\<rparr>;
          index = length (playerSequence s1) - 1;
          remainingPresses =
            int (length (computerSequence s1)) - int (length (playerSequence s1));
          s2 = snd (setText (Element StatusSpan)
                 (''Player's turn... '' @ int_toString remainingPresses @ '' presses left'')
                 s1)
      in if js_index (playerSequence s2) index \<noteq> js_index (computerSequence s2) index
         then resetGame ''Wrong pad! Game over.'' s2
         else if remainingPresses = 0 then checkRound s2
         else s2)"

subsection \<open>Event handlers\<close>

definition startButtonHandler :: "real \<Rightarrow> game \<Rightarrow> completion \<times> game" where
  "startButtonHandler r s =
     (let s1 = snd (setLevel JUndefined s);
          s2 = s1\<lparr>computerSequence := [], playerSequence := [], roundCount := 1\<rparr>;
          s3 = classAdd StartButton ''hidden'' s2;
          s4 = classRemove StatusSpan ''hidden'' s3
      in playComputerTurn r s4)"

text \<open>
  A click event, as far as \<^verbatim>\<open>padHandler\<close> reads it: the \<^verbatim>\<open>dataset\<close> of its target.
\<close>

record event =
  dataset :: "(string \<times> string) list"

text \<open>
  \<^verbatim>\<open>padHandler(event)\<close> returns the colour, or \<^verbatim>\<open>undefined\<close> (\<open>None\<close>).
\<close>

definition padHandler :: "event \<Rightarrow> game \<Rightarrow> string option \<times> game" where
  "padHandler ev s =
     (case map_of (dataset ev) ''color'' of
        None \<Rightarrow> (None, s)
      | Some c \<Rightarrow>
          (if c = [] then (None, s)
           else
             (case find (\<lambda>p. color p = c) (pads s) of
                None \<Rightarrow> (None, s)
              | Some p \<Rightarrow>
                  (let s1 = s\<lparr>played := played s @ [sound p]\<rparr>;
                       s2 = classAdd (selector p) ''activated'' s1;
                       s3 = setTimeout (RemoveActivated (selector p)) 500 s2
                   in (Some c, checkPress c s3)))))"

subsection \<open>The event loop\<close>

text \<open>Running the callback of a pending timer; \<open>r\<close> feeds \<^verbatim>\<open>Math.random()\<close>.\<close>

definition runTask :: "real \<Rightarrow> task \<Rightarrow> game \<Rightarrow> completion \<times> game" where
  "runTask r t s =
     (case t of
        ActivatePad c \<Rightarrow> (Returned, activatePad c s)
      | RemoveActivated n \<Rightarrow> (Returned, classRemove n ''activated'' s)
      | PlayHumanTurn \<Rightarrow> (Returned, playHumanTurn s)
      | PlayComputerTurn \<Rightarrow> playComputerTurn r s)"

definition fireTimer :: "real \<Rightarrow> nat \<Rightarrow> game \<Rightarrow> completion \<times> game" where
  "fireTimer r i s =
     (if i < length (timers s)
      then runTask r (snd (timers s ! i))
             (s\<lparr>timers := take i (timers s) @ drop (Suc i) (timers s)\<rparr>)
      else (Returned, s))"

subsection \<open>Reachable states and replayed input\<close>

text \<open>
  The states the program can be in: the state after loading (whatever the page shows),
  and every state one of the script's functions, or a pending timer, leads to from
  there. The functions are the ones the script exports on \<^verbatim>\<open>window\<close>.
\<close>

inductive reachable :: "game \<Rightarrow> bool" where
  reach_loaded: "reachable (initialGame\<lparr>textContent := tc, classList := cl\<rparr>)"
| reach_start: "reachable s \<Longrightarrow> reachable (snd (startButtonHandler r s))"
| reach_pad: "reachable s \<Longrightarrow> reachable (snd (padHandler ev s))"
| reach_press: "reachable s \<Longrightarrow> reachable (checkPress c s)"
| reach_round: "reachable s \<Longrightarrow> reachable (checkRound s)"
| reach_computer: "reachable s \<Longrightarrow> reachable (snd (playComputerTurn r s))"
| reach_human: "reachable s \<Longrightarrow> reachable (playHumanTurn s)"
| reach_reset: "reachable s \<Longrightarrow> reachable (resetGame msg s)"
| reach_level: "reachable s \<Longrightarrow> reachable (snd (setLevel l s))"
| reach_setText: "reachable s \<Longrightarrow> reachable (snd (setText e txt s))"
| reach_activatePad: "reachable s \<Longrightarrow> reachable (activatePad c s)"
| reach_activatePads: "reachable s \<Longrightarrow> reachable (activatePads xs s)"
| reach_timer: "reachable s \<Longrightarrow> reachable (snd (fireTimer r i s))"

text \<open>A player entering a list of signals: one \<^verbatim>\<open>checkPress\<close> call for each, in order.\<close>

primrec pressAll :: "string list \<Rightarrow> game \<Rightarrow> game" where
  "pressAll [] s = s"
| "pressAll (c # cs) s = pressAll cs (checkPress c s)"

text \<open>
  The state \<^verbatim>\<open>checkPress\<close> has built when it compares the press with the sequence:
  the press \<open>c\<close> appended and the status line written.
\<close>

definition pressed :: "string \<Rightarrow> game \<Rightarrow> game" where
  "pressed c s =
     snd (setText (Element StatusSpan)
       (''Player's turn... '' @
        int_toString (int (length (computerSequence s)) - int (Suc (length (playerSequence s)))) @
        '' presses left'')
       (s\<lparr>playerSequence := playerSequence s @ [c]\<rparr>))"

text \<open>The player never has more signals entered than the computer has played.\<close>

definition bounded :: "game \<Rightarrow> bool" where
  "bounded s \<longleftrightarrow> length (playerSequence s) \<le> length (computerSequence s)"

text \<open>
  A game in its first round: the start button pressed on the loaded page, with
  \<^verbatim>\<open>Math.random()\<close> giving \<open>0\<close>, which picks the red pad.
\<close>

definition roundOne :: game where
  "roundOne = snd (startButtonHandler 0 initialGame)"

definition redPad :: pad where
  "redPad = \<lparr>color = ''red'', selector = PadElement ''red'',
       sound = ''../assets/simon-says-sound-1.mp3''\<rparr>"

text \<open>The pad \<^verbatim>\<open>Math.random()\<close> \<open>= 1/2\<close> picks.\<close>

definition bluePad :: pad where
  "bluePad = \<lparr>color = ''blue'', selector = PadElement ''blue'',
       sound = ''../assets/simon-says-sound-3.mp3''\<rparr>"

text \<open>
  The first round with the player's one correct press appended, as \<^verbatim>\<open>checkPress\<close>
  hands it to \<^verbatim>\<open>checkRound\<close>; and a game whose eighth round has just been entered
  correctly.
\<close>

definition roundDone :: game where
  "roundDone = pressed ''red'' roundOne"

definition lastRound :: game where
  "lastRound =
     roundOne\<lparr>computerSequence := replicate 8 ''red'', playerSequence := replicate 8 ''red'',
       roundCount := 8\<rparr>"

text \<open>
  The player's turn of round one, after the hand-over; and the state between two
  rounds: the player has pressed red, and the next computer turn is scheduled but has
  not run.
\<close>

definition playerTurnOne :: game where
  "playerTurnOne = playHumanTurn roundOne"

definition betweenRounds :: game where
  "betweenRounds = checkPress ''red'' playerTurnOne"

text \<open>A click on the red pad.\<close>

definition redClick :: event where
  "redClick = \<lparr>dataset = [(''color'', ''red'')]\<rparr>"

section \<open>Properties\<close>

subsection \<open>What each function does to the state\<close>

lemma js_index_snoc: "js_index (xs @ [c]) (length xs) = Some c"
  by (simp add: js_index_def)

lemma setText_Element:
  "setText (Element n) txt s = (Some txt, s\<lparr>textContent := (textContent s)(n := txt)\<rparr>)"
  by (simp add: setText_def)

lemma checkPress_unfold:
  "checkPress c s =
     (if js_index (computerSequence s) (length (playerSequence s)) \<noteq> Some c
      then resetGame ''Wrong pad! Game over.'' (pressed c s)
      else if Suc (length (playerSequence s)) = length (computerSequence s)
      then checkRound (pressed c s)
      else pressed c s)"
  by (auto simp add: checkPress_def pressed_def Let_def setText_Element js_index_def)

lemma resetGame_core:
  "computerSequence (resetGame msg s) = []"
  "playerSequence (resetGame msg s) = []"
  "roundCount (resetGame msg s) = 0"
  "maxRoundCount (resetGame msg s) = JNum 0"
  "alerts (resetGame msg s) = alerts s @ [msg]"
  "timers (resetGame msg s) = timers s"
  "pads (resetGame msg s) = pads s"
  "played (resetGame msg s) = played s"
  by (simp_all add: resetGame_def Let_def setText_Element classAdd_def classRemove_def)

lemma resetGame_page:
  "textContent (resetGame msg s) = (textContent s)(Heading := ''Simon Says'')"
  "''hidden'' \<notin> classList (resetGame msg s) StartButton"
  "''hidden'' \<in> classList (resetGame msg s) StatusSpan"
  "''unclickable'' \<in> classList (resetGame msg s) PadContainer"
  by (simp_all add: resetGame_def Let_def setText_Element classAdd_def classRemove_def)

lemma pressed_core:
  "computerSequence (pressed c s) = computerSequence s"
  "playerSequence (pressed c s) = playerSequence s @ [c]"
  "roundCount (pressed c s) = roundCount s"
  "maxRoundCount (pressed c s) = maxRoundCount s"
  "alerts (pressed c s) = alerts s"
  "timers (pressed c s) = timers s"
  "pads (pressed c s) = pads s"
  "played (pressed c s) = played s"
  "classList (pressed c s) = classList s"
  by (simp_all add: pressed_def setText_Element)

lemma checkRound_win:
  "JNum (int (length (computerSequence s))) = maxRoundCount s \<Longrightarrow>
     checkRound s = resetGame ''You win! Great memory!'' s"
  by (simp add: checkRound_def)

lemma checkRound_next:
  assumes "JNum (int (length (computerSequence s))) \<noteq> maxRoundCount s"
  shows "computerSequence (checkRound s) = computerSequence s"
    and "playerSequence (checkRound s) = []"
    and "roundCount (checkRound s) = roundCount s + 1"
    and "maxRoundCount (checkRound s) = maxRoundCount s"
    and "alerts (checkRound s) = alerts s"
    and "timers (checkRound s) = timers s @ [(1000, PlayComputerTurn)]"
    and "pads (checkRound s) = pads s"
    and "classList (checkRound s) = classList s"
    and "textContent (checkRound s) = (textContent s)(StatusSpan := ''Nice! Keep going!'')"
  using assms by (simp_all add: checkRound_def Let_def setText_Element setTimeout_def)

lemma getRandomItem_empty: "getRandomItem r [] = Null"
  by (simp add: getRandomItem_def)

lemma getRandomItem_Ref:
  assumes "collection \<noteq> []" "0 \<le> r" "r < 1"
  shows "\<exists>i < length collection. getRandomItem r collection = Ref (collection ! i)"
proof -
  let ?n = "length collection"
  have n: "0 < ?n" using assms(1) by simp
  have lo: "0 \<le> \<lfloor>r * real ?n\<rfloor>" using assms(2) by simp
  have "r * real ?n < real ?n" using assms(3) n by simp
  then have hi: "\<lfloor>r * real ?n\<rfloor> < int ?n" by linarith
  from lo hi have "nat \<lfloor>r * real ?n\<rfloor> < ?n" by linarith
  with lo hi n show ?thesis
    by (auto simp add: getRandomItem_def Let_def)
qed


lemma playComputerTurn_Ref:
  assumes "getRandomItem r (pads s) = Ref p"
  shows "fst (playComputerTurn r s) = Returned"
    and "computerSequence (snd (playComputerTurn r s)) = computerSequence s @ [color p]"
    and "playerSequence (snd (playComputerTurn r s)) = playerSequence s"
    and "roundCount (snd (playComputerTurn r s)) = roundCount s"
    and "maxRoundCount (snd (playComputerTurn r s)) = maxRoundCount s"
    and "pads (snd (playComputerTurn r s)) = pads s"
    and "alerts (snd (playComputerTurn r s)) = alerts s"
    and "timers (snd (playComputerTurn r s)) =
           timers s @
           map (\<lambda>(index, c). ((index + 1) * 600, ActivatePad c))
             (zip [0 ..< Suc (length (computerSequence s))] (computerSequence s @ [color p])) @
           [(roundCount s * 600 + 1000, PlayHumanTurn)]"
    and "''unclickable'' \<in> classList (snd (playComputerTurn r s)) PadContainer"
  using assms
  by (simp_all add: playComputerTurn_def Let_def setText_Element classAdd_def
      activatePads_def setTimeout_def)

lemma playComputerTurn_throws:
  assumes "\<forall>p. getRandomItem r (pads s) \<noteq> Ref p"
  shows "fst (playComputerTurn r s) = Thrown TypeError"
    and "computerSequence (snd (playComputerTurn r s)) = computerSequence s"
    and "playerSequence (snd (playComputerTurn r s)) = playerSequence s"
    and "roundCount (snd (playComputerTurn r s)) = roundCount s"
    and "maxRoundCount (snd (playComputerTurn r s)) = maxRoundCount s"
    and "pads (snd (playComputerTurn r s)) = pads s"
    and "timers (snd (playComputerTurn r s)) = timers s"
    and "''unclickable'' \<in> classList (snd (playComputerTurn r s)) PadContainer"
  using assms
  by (simp_all add: playComputerTurn_def Let_def setText_Element classAdd_def
      split: jsref.splits)

lemma playComputerTurn_frame:
  "playerSequence (snd (playComputerTurn r s)) = playerSequence s"
  "roundCount (snd (playComputerTurn r s)) = roundCount s"
  "maxRoundCount (snd (playComputerTurn r s)) = maxRoundCount s"
  "pads (snd (playComputerTurn r s)) = pads s"
  "''unclickable'' \<in> classList (snd (playComputerTurn r s)) PadContainer"
  by (simp_all add: playComputerTurn_def Let_def setText_Element classAdd_def
      activatePads_def setTimeout_def split: jsref.splits)

lemma playComputerTurn_grows:
  "length (computerSequence s) \<le> length (computerSequence (snd (playComputerTurn r s)))"
  by (simp add: playComputerTurn_def Let_def setText_Element classAdd_def
      activatePads_def setTimeout_def split: jsref.splits)

lemma setLevel_sequences:
  "computerSequence (snd (setLevel l s)) = computerSequence s"
  "playerSequence (snd (setLevel l s)) = playerSequence s"
  by (simp_all add: setLevel_def Let_def)

lemma setText_sequences:
  "computerSequence (snd (setText e txt s)) = computerSequence s"
  "playerSequence (snd (setText e txt s)) = playerSequence s"
  by (simp_all add: setText_def setTextFirst_def split: target.splits)

lemma activatePad_sequences:
  "computerSequence (activatePad c s) = computerSequence s"
  "playerSequence (activatePad c s) = playerSequence s"
  by (simp_all add: activatePad_def setTimeout_def classAdd_def split: option.splits)

lemma activatePads_sequences:
  "computerSequence (activatePads xs s) = computerSequence s"
  "playerSequence (activatePads xs s) = playerSequence s"
  by (simp_all add: activatePads_def)

lemma playHumanTurn_sequences:
  "computerSequence (playHumanTurn s) = computerSequence s"
  "playerSequence (playHumanTurn s) = playerSequence s"
  by (simp_all add: playHumanTurn_def Let_def setText_Element classRemove_def)

lemma bounded_resetGame: "bounded (resetGame msg s)"
  by (simp add: bounded_def resetGame_core)

lemma bounded_checkRound: "bounded (checkRound s)"
  by (cases "JNum (int (length (computerSequence s))) = maxRoundCount s")
    (simp_all add: bounded_def checkRound_win checkRound_next resetGame_core)

lemma bounded_checkPress: "bounded (checkPress c s)"
proof (cases "js_index (computerSequence s) (length (playerSequence s)) = Some c")
  case False
  then show ?thesis by (simp add: checkPress_unfold bounded_resetGame)
next
  case True
  then have "length (playerSequence s) < length (computerSequence s)"
    by (simp add: js_index_def split: if_splits)
  then show ?thesis
    using True by (simp add: checkPress_unfold bounded_checkRound) (simp add: bounded_def pressed_core)
qed

lemma bounded_playComputerTurn: "bounded s \<Longrightarrow> bounded (snd (playComputerTurn r s))"
  using playComputerTurn_grows [of s r]
  by (simp add: bounded_def playComputerTurn_frame)

lemma bounded_startButtonHandler: "bounded (snd (startButtonHandler r s))"
  unfolding startButtonHandler_def Let_def
  by (rule bounded_playComputerTurn) (simp add: bounded_def classAdd_def classRemove_def)

lemma bounded_padHandler: "bounded s \<Longrightarrow> bounded (snd (padHandler ev s))"
  by (simp add: padHandler_def Let_def bounded_checkPress split: option.splits)

lemma bounded_runTask: "bounded s \<Longrightarrow> bounded (snd (runTask r t s))"
  by (cases t)
    (simp_all add: runTask_def bounded_playComputerTurn,
     simp_all add: bounded_def activatePad_sequences playHumanTurn_sequences classRemove_def)

lemma bounded_fireTimer: "bounded s \<Longrightarrow> bounded (snd (fireTimer r i s))"
proof (cases "i < length (timers s)")
  case True
  assume "bounded s"
  then have "bounded (s\<lparr>timers := take i (timers s) @ drop (Suc i) (timers s)\<rparr>)"
    by (simp add: bounded_def)
  then show ?thesis using True by (simp add: fireTimer_def bounded_runTask)
next
  case False
  assume "bounded s"
  then show ?thesis using False by (simp add: fireTimer_def)
qed

lemma reachable_bounded: "reachable s \<Longrightarrow> bounded s"
proof (induction rule: reachable.induct)
  case (reach_loaded tc cl)
  show ?case by (simp add: bounded_def initialGame_def)
next
  case (reach_start s r)
  show ?case by (rule bounded_startButtonHandler)
next
  case (reach_pad s ev)
  from reach_pad.IH show ?case by (rule bounded_padHandler)
next
  case (reach_press s c)
  show ?case by (rule bounded_checkPress)
next
  case (reach_round s)
  show ?case by (rule bounded_checkRound)
next
  case (reach_computer s r)
  from reach_computer.IH show ?case by (rule bounded_playComputerTurn)
next
  case (reach_human s)
  then show ?case by (simp add: bounded_def playHumanTurn_sequences)
next
  case (reach_reset s msg)
  show ?case by (rule bounded_resetGame)
next
  case (reach_level s l)
  then show ?case by (simp add: bounded_def setLevel_sequences)
next
  case (reach_setText s e x)
  then show ?case by (simp add: bounded_def setText_sequences)
next
  case (reach_activatePad s c)
  then show ?case by (simp add: bounded_def activatePad_sequences)
next
  case (reach_activatePads s xs)
  then show ?case by (simp add: bounded_def activatePads_sequences)
next
  case (reach_timer s r i)
  from reach_timer.IH show ?case by (rule bounded_fireTimer)
qed


lemma setLevel_default:
  "setLevel JUndefined s = (JNum 8, s\<lparr>maxRoundCount := JNum 8\<rparr>)"
  by (simp add: setLevel_def js_get_def js_toString_def int_toString_def decimal.simps
      digit_char_def levelMap_def truthy_def)

lemma getRandomItem_zero: "getRandomItem 0 fourPads = Ref redPad"
  by (simp add: getRandomItem_def fourPads_def redPad_def)

lemma startButtonHandler_max:
  "maxRoundCount (snd (startButtonHandler r s)) = JNum 8"
  by (simp add: startButtonHandler_def Let_def playComputerTurn_frame setLevel_default
      classAdd_def classRemove_def)

lemma startButtonHandler_Ref:
  assumes "getRandomItem r (pads s) = Ref p"
  shows "fst (startButtonHandler r s) = Returned"
    and "computerSequence (snd (startButtonHandler r s)) = [color p]"
    and "playerSequence (snd (startButtonHandler r s)) = []"
    and "roundCount (snd (startButtonHandler r s)) = 1"
    and "pads (snd (startButtonHandler r s)) = pads s"
    and "alerts (snd (startButtonHandler r s)) = alerts s"
    and "timers (snd (startButtonHandler r s)) =
           timers s @ [(600, ActivatePad (color p)), (1600, PlayHumanTurn)]"
  using assms
  by (simp_all add: startButtonHandler_def Let_def playComputerTurn_Ref setLevel_default
      classAdd_def classRemove_def)

lemma roundOne_core:
  "computerSequence roundOne = [''red'']"
  "playerSequence roundOne = []"
  "roundCount roundOne = 1"
  "maxRoundCount roundOne = JNum 8"
  "pads roundOne = fourPads"
  "alerts roundOne = []"
  "timers roundOne = [(600, ActivatePad ''red''), (1600, PlayHumanTurn)]"
  "''unclickable'' \<in> classList roundOne PadContainer"
proof -
  have p: "getRandomItem 0 (pads initialGame) = Ref redPad"
    by (simp add: initialGame_def getRandomItem_zero)
  show "computerSequence roundOne = [''red'']"
    using startButtonHandler_Ref(2) [OF p] by (simp add: roundOne_def redPad_def)
  show "playerSequence roundOne = []"
    using startButtonHandler_Ref(3) [OF p] by (simp add: roundOne_def)
  show "roundCount roundOne = 1"
    using startButtonHandler_Ref(4) [OF p] by (simp add: roundOne_def)
  show "maxRoundCount roundOne = JNum 8"
    by (simp add: roundOne_def startButtonHandler_max)
  show "pads roundOne = fourPads"
    using startButtonHandler_Ref(5) [OF p] by (simp add: roundOne_def initialGame_def)
  show "alerts roundOne = []"
    using startButtonHandler_Ref(6) [OF p] by (simp add: roundOne_def initialGame_def)
  show "timers roundOne = [(600, ActivatePad ''red''), (1600, PlayHumanTurn)]"
    using startButtonHandler_Ref(7) [OF p] by (simp add: roundOne_def initialGame_def redPad_def)
  show "''unclickable'' \<in> classList roundOne PadContainer"
    by (simp add: roundOne_def startButtonHandler_def Let_def playComputerTurn_frame)
qed

lemma reachable_initialGame: "reachable initialGame"
proof -
  have "initialGame = initialGame\<lparr>textContent := (\<lambda>_. []), classList := (\<lambda>_. {})\<rparr>"
    by (simp add: initialGame_def)
  then show ?thesis using reach_loaded [where tc = "\<lambda>_. []" and cl = "\<lambda>_. {}"] by simp
qed

lemma reachable_roundOne: "reachable roundOne"
  unfolding roundOne_def by (rule reach_start [OF reachable_initialGame])

subsection \<open>Replayed input, timers and the state between rounds\<close>

lemma getRandomItem_half: "getRandomItem (1 / 2) fourPads = Ref bluePad"
  by (simp add: getRandomItem_def fourPads_def bluePad_def)

lemma pressAll_append: "pressAll (xs @ ys) s = pressAll ys (pressAll xs s)"
  by (induction xs arbitrary: s) simp_all

lemma checkPress_continue:
  assumes "js_index (computerSequence s) (length (playerSequence s)) = Some c"
    and "Suc (length (playerSequence s)) \<noteq> length (computerSequence s)"
  shows "checkPress c s = pressed c s"
  using assms by (simp add: checkPress_unfold)

lemma checkPress_complete:
  assumes "js_index (computerSequence s) (length (playerSequence s)) = Some c"
    and "Suc (length (playerSequence s)) = length (computerSequence s)"
  shows "checkPress c s = checkRound (pressed c s)"
  using assms by (simp add: checkPress_unfold)

lemma pressAll_prefix:
  assumes "computerSequence s = playerSequence s @ ys @ zs" and "zs \<noteq> []"
  shows "computerSequence (pressAll ys s) = computerSequence s \<and>
         playerSequence (pressAll ys s) = playerSequence s @ ys \<and>
         roundCount (pressAll ys s) = roundCount s \<and>
         maxRoundCount (pressAll ys s) = maxRoundCount s \<and>
         pads (pressAll ys s) = pads s \<and>
         timers (pressAll ys s) = timers s \<and>
         alerts (pressAll ys s) = alerts s"
  using assms
proof (induction ys arbitrary: s)
  case Nil
  then show ?case by simp
next
  case (Cons y ys)
  have i: "js_index (computerSequence s) (length (playerSequence s)) = Some y"
    using Cons.prems(1) by (simp add: js_index_def nth_append)
  have n: "Suc (length (playerSequence s)) \<noteq> length (computerSequence s)"
    using Cons.prems by simp
  have step: "checkPress y s = pressed y s"
    by (rule checkPress_continue [OF i n])
  have "computerSequence (pressed y s) = playerSequence (pressed y s) @ ys @ zs"
    using Cons.prems(1) by (simp add: pressed_core)
  from Cons.IH [OF this Cons.prems(2)] show ?case
    by (simp add: step pressed_core)
qed

lemma pressAll_round:
  assumes "computerSequence s = playerSequence s @ ys" and "ys \<noteq> []"
    and "JNum (int (length (computerSequence s))) \<noteq> maxRoundCount s"
  shows "computerSequence (pressAll ys s) = computerSequence s \<and>
         playerSequence (pressAll ys s) = [] \<and>
         roundCount (pressAll ys s) = roundCount s + 1 \<and>
         maxRoundCount (pressAll ys s) = maxRoundCount s \<and>
         pads (pressAll ys s) = pads s \<and>
         timers (pressAll ys s) = timers s @ [(1000, PlayComputerTurn)] \<and>
         alerts (pressAll ys s) = alerts s"
proof -
  define t where "t = pressAll (butlast ys) s"
  have ys: "ys = butlast ys @ [last ys]"
    using assms(2) by simp
  have "computerSequence s = playerSequence s @ butlast ys @ [last ys]"
    using assms(1) ys by simp
  from pressAll_prefix [OF this] have t:
    "computerSequence t = computerSequence s" "playerSequence t = playerSequence s @ butlast ys"
    "roundCount t = roundCount s" "maxRoundCount t = maxRoundCount s" "pads t = pads s"
    "timers t = timers s" "alerts t = alerts s"
    by (simp_all add: t_def)
  have cs: "computerSequence t = playerSequence t @ [last ys]"
    using assms(1) ys t by simp
  have i: "js_index (computerSequence t) (length (playerSequence t)) = Some (last ys)"
    by (simp add: cs js_index_def)
  have n: "Suc (length (playerSequence t)) = length (computerSequence t)"
    by (simp add: cs)
  have "pressAll ys s = checkPress (last ys) t"
    using pressAll_append [of "butlast ys" "[last ys]" s] ys by (simp add: t_def)
  then have eq: "pressAll ys s = checkRound (pressed (last ys) t)"
    using checkPress_complete [OF i n] by simp
  have "JNum (int (length (computerSequence (pressed (last ys) t)))) \<noteq>
        maxRoundCount (pressed (last ys) t)"
    using assms(3) t by (simp add: pressed_core)
  from checkRound_next [OF this] show ?thesis
    by (simp add: eq pressed_core t)
qed

lemma fireTimer_last:
  "fireTimer r (length ts) (s\<lparr>timers := ts @ [(ms, t)]\<rparr>) = runTask r t (s\<lparr>timers := ts\<rparr>)"
  by (simp add: fireTimer_def)

lemma checkRound_timer:
  assumes "JNum (int (length (computerSequence s))) \<noteq> maxRoundCount s"
  shows "fireTimer r (length (timers s)) (checkRound s) =
           playComputerTurn r ((checkRound s)\<lparr>timers := timers s\<rparr>)"
proof -
  have "checkRound s = (checkRound s)\<lparr>timers := timers s @ [(1000, PlayComputerTurn)]\<rparr>"
    using checkRound_next(6) [OF assms] by simp
  then have "fireTimer r (length (timers s)) (checkRound s) =
      fireTimer r (length (timers s))
        ((checkRound s)\<lparr>timers := timers s @ [(1000, PlayComputerTurn)]\<rparr>)"
    by simp
  also have "\<dots> = runTask r PlayComputerTurn ((checkRound s)\<lparr>timers := timers s\<rparr>)"
    by (rule fireTimer_last)
  finally show ?thesis by (simp add: runTask_def)
qed

lemma roundDone_core:
  "computerSequence roundDone = [''red'']"
  "playerSequence roundDone = [''red'']"
  "roundCount roundDone = 1"
  "maxRoundCount roundDone = JNum 8"
  "pads roundDone = fourPads"
  "timers roundDone = [(600, ActivatePad ''red''), (1600, PlayHumanTurn)]"
  by (simp_all add: roundDone_def pressed_core roundOne_core)

lemma find_red: "find (\<lambda>p. color p = ''red'') fourPads = Some redPad"
  by (simp add: fourPads_def redPad_def)

lemma padHandler_red:
  assumes "pads s = fourPads"
  shows "snd (padHandler redClick s) =
           checkPress ''red''
             (setTimeout (RemoveActivated (PadElement ''red'')) 500
                (classAdd (PadElement ''red'') ''activated''
                   (s\<lparr>played := played s @ [''../assets/simon-says-sound-1.mp3'']\<rparr>)))"
  using assms by (simp add: padHandler_def redClick_def find_red Let_def redPad_def)

lemma playerTurnOne_core:
  "computerSequence playerTurnOne = [''red'']"
  "playerSequence playerTurnOne = []"
  "roundCount playerTurnOne = 1"
  "maxRoundCount playerTurnOne = JNum 8"
  "pads playerTurnOne = fourPads"
  "''unclickable'' \<notin> classList playerTurnOne PadContainer"
  by (simp_all add: playerTurnOne_def playHumanTurn_def Let_def setText_Element classRemove_def
      roundOne_core)

lemma betweenRounds_core:
  "computerSequence betweenRounds = [''red'']"
  "playerSequence betweenRounds = []"
  "roundCount betweenRounds = 2"
  "maxRoundCount betweenRounds = JNum 8"
  "pads betweenRounds = fourPads"
  "(1000, PlayComputerTurn) \<in> set (timers betweenRounds)"
  "''unclickable'' \<notin> classList betweenRounds PadContainer"
proof -
  let ?h = "playerTurnOne"
  note h = playerTurnOne_core
  have i: "js_index (computerSequence ?h) (length (playerSequence ?h)) = Some ''red''"
    by (simp add: h js_index_def)
  have n: "Suc (length (playerSequence ?h)) = length (computerSequence ?h)"
    by (simp add: h)
  have eq: "betweenRounds = checkRound (pressed ''red'' ?h)"
    unfolding betweenRounds_def by (rule checkPress_complete [OF i n])
  have "JNum (int (length (computerSequence (pressed ''red'' ?h)))) \<noteq>
        maxRoundCount (pressed ''red'' ?h)"
    by (simp add: pressed_core h)
  from checkRound_next [OF this] show
    "computerSequence betweenRounds = [''red'']"
    "playerSequence betweenRounds = []"
    "roundCount betweenRounds = 2"
    "maxRoundCount betweenRounds = JNum 8"
    "pads betweenRounds = fourPads"
    "(1000, PlayComputerTurn) \<in> set (timers betweenRounds)"
    "''unclickable'' \<notin> classList betweenRounds PadContainer"
    by (simp_all add: eq pressed_core h)
qed

subsection \<open>Level numbers\<close>

lemma decimal_digit: "n < 10 \<Longrightarrow> decimal n = [digit_char n]"
  by (subst decimal.simps) simp

lemma decimal_nonempty: "decimal n \<noteq> []"
  by (subst decimal.simps) simp

lemma digit_char_digit: "digit_char n \<in> set ''0123456789''"
  unfolding digit_char_def by (rule nth_mem) simp

lemma decimal_hd: "hd (decimal n) \<in> set ''0123456789''"
proof (induction n rule: decimal.induct)
  case (1 n)
  show ?case
  proof (cases "n < 10")
    case True
    then show ?thesis using digit_char_digit [of n] by (simp add: decimal_digit)
  next
    case False
    then have "decimal n = decimal (n div 10) @ [digit_char n]"
      by (subst decimal.simps) simp
    then have "hd (decimal n) = hd (decimal (n div 10))"
      by (simp add: decimal_nonempty)
    then show ?thesis using 1 False by simp
  qed
qed

lemma decimal_long: "10 \<le> n \<Longrightarrow> 2 \<le> length (decimal n)"
proof -
  assume "10 \<le> n"
  then have "decimal n = decimal (n div 10) @ [digit_char n]"
    by (subst decimal.simps) simp
  moreover have "1 \<le> length (decimal (n div 10))"
    using decimal_nonempty [of "n div 10"] by (cases "decimal (n div 10)") simp_all
  ultimately show ?thesis by simp
qed

lemma decimal_small:
  "decimal 0 = ''0''" "decimal 1 = ''1''" "decimal 2 = ''2''" "decimal 3 = ''3''"
  "decimal 4 = ''4''" "decimal 5 = ''5''" "decimal 6 = ''6''" "decimal 7 = ''7''"
  "decimal 8 = ''8''" "decimal 9 = ''9''" "decimal (Suc 0) = ''1''"
  by (simp_all add: decimal_digit digit_char_def)

lemma decimal_level:
  "decimal n \<in> {''1'', ''2'', ''3'', ''4''} \<longleftrightarrow> n \<in> {1, 2, 3, 4}"
proof (cases "n < 10")
  case True
  then have "n \<in> {0, 1, 2, 3, 4} \<union> {5, 6, 7, 8, 9}"
    by auto
  then show ?thesis
    by (auto simp add: decimal_small)
next
  case False
  then have "2 \<le> length (decimal n)" by (simp add: decimal_long)
  then have "decimal n \<notin> {''1'', ''2'', ''3'', ''4''}" by auto
  with False show ?thesis by auto
qed

lemma levelMap_miss:
  assumes "k \<notin> {''1'', ''2'', ''3'', ''4''}" and "k \<noteq> []" and "hd k \<in> set ''-0123456789''"
  shows "map_of levelMap k = None \<and> k \<notin> set objectPrototypeKeys"
  using assms by (cases k) (auto simp add: levelMap_def objectPrototypeKeys_def)

lemma int_toString_shape: "int_toString i \<noteq> [] \<and> hd (int_toString i) \<in> set ''-0123456789''"
  using decimal_hd [of "nat i"] decimal_nonempty [of "nat i"]
  by (auto simp add: int_toString_def)

lemma int_toString_level:
  "int_toString i \<in> {''1'', ''2'', ''3'', ''4''} \<longleftrightarrow> i \<in> {1, 2, 3, 4}"
proof (cases "i < 0")
  case True
  then show ?thesis by (auto simp add: int_toString_def)
next
  case False
  then have "int_toString i = decimal (nat i)" by (simp add: int_toString_def)
  moreover have "nat i \<in> {1, 2, 3, 4} \<longleftrightarrow> i \<in> {1, 2, 3, 4}"
    using False by auto
  ultimately show ?thesis using decimal_level [of "nat i"] by simp
qed

lemma js_get_levelMap_number:
  "js_get levelMap (JNum i) =
     (if i = 1 then JNum 8 else if i = 2 then JNum 14 else if i = 3 then JNum 20
      else if i = 4 then JNum 31 else JUndefined)"
proof (cases "i \<in> {1, 2, 3, 4}")
  case True
  then show ?thesis
    by (auto simp add: js_get_def js_toString_def int_toString_def decimal_small levelMap_def)
next
  case False
  then have "int_toString i \<notin> {''1'', ''2'', ''3'', ''4''}"
    using int_toString_level [of i] by simp
  from levelMap_miss [OF this] int_toString_shape [of i]
  have "map_of levelMap (int_toString i) = None \<and> int_toString i \<notin> set objectPrototypeKeys"
    by simp
  then show ?thesis using False
    by (simp add: js_get_def js_toString_def)
qed

lemma setLevel_number:
  "setLevel (JNum i) s =
     (if i = 1 then (JNum 8, s\<lparr>maxRoundCount := JNum 8\<rparr>)
      else if i = 2 then (JNum 14, s\<lparr>maxRoundCount := JNum 14\<rparr>)
      else if i = 3 then (JNum 20, s\<lparr>maxRoundCount := JNum 20\<rparr>)
      else if i = 4 then (JNum 31, s\<lparr>maxRoundCount := JNum 31\<rparr>)
      else (JStr ''Please enter level 1, 2, 3, or 4'', s))"
  by (simp add: setLevel_def js_get_levelMap_number truthy_def)

lemma setLevel_other_primitives:
  "setLevel JNull s = (JStr ''Please enter level 1, 2, 3, or 4'', s)"
  "setLevel (JBool b) s = (JStr ''Please enter level 1, 2, 3, or 4'', s)"
  by (simp_all add: setLevel_def js_get_def js_toString_def levelMap_def objectPrototypeKeys_def
      truthy_def)

lemma setLevel_numeric_string:
  "setLevel (JStr ''1'') s = (JNum 8, s\<lparr>maxRoundCount := JNum 8\<rparr>)"
  by (simp add: setLevel_def js_get_def js_toString_def levelMap_def truthy_def)

subsection \<open>The claims\<close>

text \<open>
  Claim C10. \<^verbatim>\<open>startButtonHandler\<close> calls \<^verbatim>\<open>setLevel()\<close> with no argument, which
  returns \<open>8\<close>: whatever the state before the start button is pressed, and whatever
  level \<^verbatim>\<open>setLevel\<close> was given before, \<^verbatim>\<open>maxRoundCount\<close> is \<open>8\<close> once the
  handler has run, for every value of \<^verbatim>\<open>Math.random()\<close>.
\<close>
theorem startButtonHandler_always_level_one:
  "fst (setLevel JUndefined s) = JNum 8 \<and>
   maxRoundCount (snd (startButtonHandler r s)) = JNum 8 \<and>
   maxRoundCount (snd (startButtonHandler r (snd (setLevel l s)))) = JNum 8"
  by (simp add: startButtonHandler_max setLevel_default)

theorem startButtonHandler_always_level_one_witness:
  "maxRoundCount (snd (startButtonHandler 0 (snd (setLevel (JNum 3) initialGame)))) = JNum 8"
  using startButtonHandler_always_level_one [of initialGame 0 "JNum 3"] by simp

text \<open>
  Claim C7. \<^verbatim>\<open>getRandomItem\<close> of an empty collection is \<^verbatim>\<open>null\<close>. A computer turn
  over an empty pad table leaves \<^verbatim>\<open>computerSequence\<close> as it was: reading
  \<^verbatim>\<open>randomPad.color\<close> of \<^verbatim>\<open>null\<close> throws a \<^verbatim>\<open>TypeError\<close> before the push.
\<close>
theorem empty_signal_set:
  "getRandomItem r ([] :: pad list) = Null \<and>
   (pads s = [] \<longrightarrow>
      fst (playComputerTurn r s) = Thrown TypeError \<and>
      computerSequence (snd (playComputerTurn r s)) = computerSequence s)"
  by (simp add: getRandomItem_empty playComputerTurn_throws)

theorem empty_signal_set_witness:
  "pads (roundOne\<lparr>pads := []\<rparr>) = [] \<and>
   getRandomItem (1 / 2) ([] :: pad list) = Null \<and>
   fst (playComputerTurn (1 / 2) (roundOne\<lparr>pads := []\<rparr>)) = Thrown TypeError \<and>
   computerSequence (snd (playComputerTurn (1 / 2) (roundOne\<lparr>pads := []\<rparr>))) = [''red'']"
  using empty_signal_set [of "1 / 2" "roundOne\<lparr>pads := []\<rparr>"]
  by (simp add: roundOne_core)

text \<open>
  Claim C8. When the target of the event has no \<^verbatim>\<open>color\<close> in its dataset, or a colour
  that no pad has, \<^verbatim>\<open>padHandler\<close> returns \<^verbatim>\<open>undefined\<close> and the state, the page
  included, is exactly what it was. The handler has no statement that can throw on
  this path.
\<close>
theorem padHandler_no_signal:
  assumes "map_of (dataset ev) ''color'' = None \<or>
           (\<exists>c. map_of (dataset ev) ''color'' = Some c \<and> c \<notin> color ` set (pads s))"
  shows "padHandler ev s = (None, s)"
proof -
  have "find (\<lambda>p. color p = c) (pads s) = None" if "c \<notin> color ` set (pads s)" for c
    using that by (auto simp add: find_None_iff)
  with assms show ?thesis
    by (auto simp add: padHandler_def)
qed

theorem padHandler_no_signal_witness:
  "padHandler \<lparr>dataset = []\<rparr> roundOne = (None, roundOne) \<and>
   padHandler \<lparr>dataset = [(''color'', ''purple'')]\<rparr> roundOne = (None, roundOne)"
proof -
  have a: "map_of (dataset \<lparr>dataset = []\<rparr>) ''color'' = None"
    by simp
  have b: "\<exists>c. map_of (dataset \<lparr>dataset = [(''color'', ''purple'')]\<rparr>) ''color'' = Some c \<and>
               c \<notin> color ` set (pads roundOne)"
    by (simp add: roundOne_core fourPads_def)
  show ?thesis
    using padHandler_no_signal [of "\<lparr>dataset = []\<rparr>" roundOne]
      padHandler_no_signal [of "\<lparr>dataset = [(''color'', ''purple'')]\<rparr>" roundOne] a b
    by blast
qed

text \<open>
  Claim C9. \<^verbatim>\<open>setText\<close> on an empty \<^verbatim>\<open>NodeList\<close>, \<^verbatim>\<open>HTMLCollection\<close> or array
  changes nothing and returns an object whose \<^verbatim>\<open>textContent\<close> is \<^verbatim>\<open>undefined\<close>. On
  a collection that is not empty it sets the text of the first element, on a single
  element the text of that element, and returns an object carrying the text.
\<close>
theorem setText_targets:
  "setText (NodeList []) x s = (None, s) \<and>
   setText (HTMLCollection []) x s = (None, s) \<and>
   setText (Array []) x s = (None, s) \<and>
   (ns \<noteq> [] \<longrightarrow>
      setText (NodeList ns) x s = (Some x, s\<lparr>textContent := (textContent s)(ns ! 0 := x)\<rparr>) \<and>
      setText (HTMLCollection ns) x s =
        (Some x, s\<lparr>textContent := (textContent s)(ns ! 0 := x)\<rparr>) \<and>
      setText (Array ns) x s = (Some x, s\<lparr>textContent := (textContent s)(ns ! 0 := x)\<rparr>)) \<and>
   setText (Element n) x s = (Some x, s\<lparr>textContent := (textContent s)(n := x)\<rparr>)"
  by (simp add: setText_def setTextFirst_def)

theorem setText_targets_witness:
  "[OtherElement 0, OtherElement 1] \<noteq> [] \<and>
   setText (NodeList []) ''Hello'' initialGame = (None, initialGame) \<and>
   fst (setText (NodeList [OtherElement 0, OtherElement 1]) ''Hello'' initialGame) = Some ''Hello'' \<and>
   textContent (snd (setText (NodeList [OtherElement 0, OtherElement 1]) ''Hello'' initialGame))
     (OtherElement 0) = ''Hello'' \<and>
   textContent (snd (setText (NodeList [OtherElement 0, OtherElement 1]) ''Hello'' initialGame))
     (OtherElement 1) = []"
  using setText_targets [of "''Hello''" initialGame "[OtherElement 0, OtherElement 1]" Heading]
  by (simp add: initialGame_def)

text \<open>
  Claim C2. A press whose signal is not the entry of \<^verbatim>\<open>computerSequence\<close> at the
  index \<open>length playerSequence\<close> (the length before the press is appended; past the
  end there is no entry) ends the game at once, however many presses were left: the
  result is \<^verbatim>\<open>resetGame("Wrong pad! Game over.")\<close>, so the loss is alerted, both
  sequences are empty, both counters are \<open>0\<close>, no timer is added, the start button is
  shown again and the pads are unclickable.
\<close>
theorem checkPress_mismatch:
  assumes "js_index (computerSequence s) (length (playerSequence s)) \<noteq> Some c"
  shows "checkPress c s = resetGame ''Wrong pad! Game over.'' (pressed c s) \<and>
         computerSequence (checkPress c s) = [] \<and>
         playerSequence (checkPress c s) = [] \<and>
         roundCount (checkPress c s) = 0 \<and>
         maxRoundCount (checkPress c s) = JNum 0 \<and>
         alerts (checkPress c s) = alerts s @ [''Wrong pad! Game over.''] \<and>
         timers (checkPress c s) = timers s \<and>
         ''hidden'' \<notin> classList (checkPress c s) StartButton \<and>
         ''unclickable'' \<in> classList (checkPress c s) PadContainer"
  using assms
  by (simp add: checkPress_unfold resetGame_core resetGame_page pressed_core)

theorem checkPress_mismatch_witness:
  "js_index (computerSequence roundOne) (length (playerSequence roundOne)) \<noteq> Some ''green'' \<and>
   computerSequence (checkPress ''green'' roundOne) = [] \<and>
   playerSequence (checkPress ''green'' roundOne) = [] \<and>
   roundCount (checkPress ''green'' roundOne) = 0 \<and>
   maxRoundCount (checkPress ''green'' roundOne) = JNum 0 \<and>
   alerts (checkPress ''green'' roundOne) = [''Wrong pad! Game over.'']"
proof -
  have h: "js_index (computerSequence roundOne) (length (playerSequence roundOne)) \<noteq> Some ''green''"
    by (simp add: roundOne_core js_index_def)
  show ?thesis
    using h checkPress_mismatch [OF h]
    by (simp add: roundOne_core resetGame_core pressed_core)
qed

text \<open>
  Claim C3. In every reachable state \<^verbatim>\<open>playerSequence\<close> is no longer than
  \<^verbatim>\<open>computerSequence\<close>. A matching press that makes the two lengths equal runs
  \<^verbatim>\<open>checkRound\<close>.
\<close>
theorem player_input_bounded:
  "(reachable s \<longrightarrow> length (playerSequence s) \<le> length (computerSequence s)) \<and>
   (js_index (computerSequence s) (length (playerSequence s)) = Some c \<and>
    Suc (length (playerSequence s)) = length (computerSequence s) \<longrightarrow>
      checkPress c s = checkRound (pressed c s))"
  using reachable_bounded [of s]
  by (simp add: bounded_def checkPress_unfold)

theorem player_input_bounded_witness:
  "reachable roundOne \<and>
   length (playerSequence roundOne) \<le> length (computerSequence roundOne) \<and>
   js_index (computerSequence roundOne) (length (playerSequence roundOne)) = Some ''red'' \<and>
   Suc (length (playerSequence roundOne)) = length (computerSequence roundOne) \<and>
   checkPress ''red'' roundOne = checkRound (pressed ''red'' roundOne)"
proof -
  have a: "js_index (computerSequence roundOne) (length (playerSequence roundOne)) = Some ''red''"
    by (simp add: roundOne_core js_index_def)
  have b: "Suc (length (playerSequence roundOne)) = length (computerSequence roundOne)"
    by (simp add: roundOne_core)
  show ?thesis
    using player_input_bounded [of roundOne "''red''"] reachable_roundOne a b by blast
qed

text \<open>
  Claim C1. \<^verbatim>\<open>checkRound\<close>: when the length of \<^verbatim>\<open>computerSequence\<close> equals
  \<^verbatim>\<open>maxRoundCount\<close> the game is over and won: the result is
  \<^verbatim>\<open>resetGame("You win! Great memory!")\<close>, so the win is alerted, both sequences are
  empty, both counters are \<open>0\<close>, no timer is added, the start button is shown again,
  the status is hidden and the pads are unclickable. Otherwise the round
  counter goes up by one, \<^verbatim>\<open>playerSequence\<close> is emptied, \<^verbatim>\<open>computerSequence\<close> is
  kept, and one timer for \<^verbatim>\<open>playComputerTurn\<close> is scheduled (1000 ms); firing it is
  the computer's turn. The computer's turn, with the pad \<^verbatim>\<open>getRandomItem\<close> picks,
  appends exactly that pad's colour and schedules the playback of the whole new
  sequence (one \<^verbatim>\<open>activatePad\<close> every 600 ms) and the hand-over to the player. With
  a pad table that is not empty and \<^verbatim>\<open>Math.random()\<close> in \<open>[0, 1)\<close> a pad is picked.
\<close>
theorem checkRound_outcome:
  "(JNum (int (length (computerSequence s))) = maxRoundCount s \<longrightarrow>
      checkRound s = resetGame ''You win! Great memory!'' s \<and>
      alerts (checkRound s) = alerts s @ [''You win! Great memory!''] \<and>
      computerSequence (checkRound s) = [] \<and>
      playerSequence (checkRound s) = [] \<and>
      roundCount (checkRound s) = 0 \<and>
      maxRoundCount (checkRound s) = JNum 0 \<and>
      timers (checkRound s) = timers s \<and>
      ''hidden'' \<notin> classList (checkRound s) StartButton \<and>
      ''hidden'' \<in> classList (checkRound s) StatusSpan \<and>
      ''unclickable'' \<in> classList (checkRound s) PadContainer) \<and>
   (JNum (int (length (computerSequence s))) \<noteq> maxRoundCount s \<longrightarrow>
      roundCount (checkRound s) = roundCount s + 1 \<and>
      playerSequence (checkRound s) = [] \<and>
      computerSequence (checkRound s) = computerSequence s \<and>
      timers (checkRound s) = timers s @ [(1000, PlayComputerTurn)] \<and>
      fireTimer r (length (timers s)) (checkRound s) =
        playComputerTurn r ((checkRound s)\<lparr>timers := timers s\<rparr>)) \<and>
   (getRandomItem r (pads s) = Ref p \<longrightarrow>
      fst (playComputerTurn r s) = Returned \<and>
      computerSequence (snd (playComputerTurn r s)) = computerSequence s @ [color p] \<and>
      timers (snd (playComputerTurn r s)) =
        timers s @
        map (\<lambda>(index, c). ((index + 1) * 600, ActivatePad c))
          (zip [0 ..< Suc (length (computerSequence s))] (computerSequence s @ [color p])) @
        [(roundCount s * 600 + 1000, PlayHumanTurn)]) \<and>
   (pads s \<noteq> [] \<and> 0 \<le> r \<and> r < 1 \<longrightarrow>
      (\<exists>i < length (pads s). getRandomItem r (pads s) = Ref (pads s ! i)))"
proof -
  have w: "JNum (int (length (computerSequence s))) = maxRoundCount s \<longrightarrow>
      checkRound s = resetGame ''You win! Great memory!'' s \<and>
      alerts (checkRound s) = alerts s @ [''You win! Great memory!''] \<and>
      computerSequence (checkRound s) = [] \<and>
      playerSequence (checkRound s) = [] \<and>
      roundCount (checkRound s) = 0 \<and>
      maxRoundCount (checkRound s) = JNum 0 \<and>
      timers (checkRound s) = timers s \<and>
      ''hidden'' \<notin> classList (checkRound s) StartButton \<and>
      ''hidden'' \<in> classList (checkRound s) StatusSpan \<and>
      ''unclickable'' \<in> classList (checkRound s) PadContainer"
    by (simp add: checkRound_win resetGame_core resetGame_page)
  have n: "JNum (int (length (computerSequence s))) \<noteq> maxRoundCount s \<longrightarrow>
      roundCount (checkRound s) = roundCount s + 1 \<and>
      playerSequence (checkRound s) = [] \<and>
      computerSequence (checkRound s) = computerSequence s \<and>
      timers (checkRound s) = timers s @ [(1000, PlayComputerTurn)] \<and>
      fireTimer r (length (timers s)) (checkRound s) =
        playComputerTurn r ((checkRound s)\<lparr>timers := timers s\<rparr>)"
    using checkRound_timer [of s r] by (simp add: checkRound_next)
  have c: "getRandomItem r (pads s) = Ref p \<longrightarrow>
      fst (playComputerTurn r s) = Returned \<and>
      computerSequence (snd (playComputerTurn r s)) = computerSequence s @ [color p] \<and>
      timers (snd (playComputerTurn r s)) =
        timers s @
        map (\<lambda>(index, c). ((index + 1) * 600, ActivatePad c))
          (zip [0 ..< Suc (length (computerSequence s))] (computerSequence s @ [color p])) @
        [(roundCount s * 600 + 1000, PlayHumanTurn)]"
    using playComputerTurn_Ref [of r s p] by simp
  have g: "pads s \<noteq> [] \<and> 0 \<le> r \<and> r < 1 \<longrightarrow>
      (\<exists>i < length (pads s). getRandomItem r (pads s) = Ref (pads s ! i))"
    using getRandomItem_Ref [of "pads s" r] by simp
  from w n c g show ?thesis by blast
qed

theorem checkRound_outcome_witness:
  "JNum (int (length (computerSequence lastRound))) = maxRoundCount lastRound \<and>
   checkRound lastRound = resetGame ''You win! Great memory!'' lastRound \<and>
   length (computerSequence lastRound) = 8 \<and>
   roundCount lastRound = 8 \<and>
   alerts (checkRound lastRound) = [''You win! Great memory!''] \<and>
   computerSequence (checkRound lastRound) = [] \<and>
   playerSequence (checkRound lastRound) = [] \<and>
   roundCount (checkRound lastRound) = 0 \<and>
   maxRoundCount (checkRound lastRound) = JNum 0 \<and>
   timers (checkRound lastRound) = timers lastRound \<and>
   ''hidden'' \<notin> classList (checkRound lastRound) StartButton \<and>
   ''unclickable'' \<in> classList (checkRound lastRound) PadContainer \<and>
   JNum (int (length (computerSequence roundDone))) \<noteq> maxRoundCount roundDone \<and>
   roundCount (checkRound roundDone) = 2 \<and>
   playerSequence (checkRound roundDone) = [] \<and>
   timers (checkRound roundDone) =
     [(600, ActivatePad ''red''), (1600, PlayHumanTurn), (1000, PlayComputerTurn)] \<and>
   getRandomItem (1 / 2) (pads (checkRound roundDone)) = Ref bluePad \<and>
   computerSequence (snd (playComputerTurn (1 / 2) (checkRound roundDone))) =
     [''red'', ''blue''] \<and>
   timers (snd (playComputerTurn (1 / 2) (checkRound roundDone))) =
     [(600, ActivatePad ''red''), (1600, PlayHumanTurn), (1000, PlayComputerTurn),
      (600, ActivatePad ''red''), (1200, ActivatePad ''blue''), (2200, PlayHumanTurn)] \<and>
   pads roundDone \<noteq> [] \<and> (0::real) \<le> 1 / 2 \<and> (1 / 2 :: real) < 1"
proof -
  have a: "JNum (int (length (computerSequence lastRound))) = maxRoundCount lastRound"
    by (simp add: lastRound_def roundOne_core)
  have b: "JNum (int (length (computerSequence roundDone))) \<noteq> maxRoundCount roundDone"
    by (simp add: roundDone_core)
  have next_core: "pads (checkRound roundDone) = fourPads"
    "computerSequence (checkRound roundDone) = [''red'']"
    "roundCount (checkRound roundDone) = 2"
    "timers (checkRound roundDone) =
       [(600, ActivatePad ''red''), (1600, PlayHumanTurn), (1000, PlayComputerTurn)]"
    using checkRound_next [OF b] by (simp_all add: roundDone_core)
  have c: "getRandomItem (1 / 2) (pads (checkRound roundDone)) = Ref bluePad"
    by (simp add: next_core getRandomItem_half)
  have d: "pads roundDone \<noteq> []"
    by (simp add: roundDone_core fourPads_def)
  have z: "[0 ..< Suc (Suc 0)] = [0, Suc 0]"
    by (simp add: upt_rec)
  have l: "length (computerSequence lastRound) = 8" "roundCount lastRound = 8"
    "alerts lastRound = []"
    by (simp_all add: lastRound_def roundOne_core)
  have win: "checkRound lastRound = resetGame ''You win! Great memory!'' lastRound \<and>
      alerts (checkRound lastRound) = [''You win! Great memory!''] \<and>
      computerSequence (checkRound lastRound) = [] \<and>
      playerSequence (checkRound lastRound) = [] \<and>
      roundCount (checkRound lastRound) = 0 \<and>
      maxRoundCount (checkRound lastRound) = JNum 0 \<and>
      timers (checkRound lastRound) = timers lastRound \<and>
      ''hidden'' \<notin> classList (checkRound lastRound) StartButton \<and>
      ''unclickable'' \<in> classList (checkRound lastRound) PadContainer"
  proof -
    have "alerts lastRound @ [''You win! Great memory!''] = [''You win! Great memory!'']"
      by (simp add: l)
    with a checkRound_outcome [of lastRound 0 redPad] show ?thesis
      by metis
  qed
  have rest: "roundCount (checkRound roundDone) = 2 \<and>
      playerSequence (checkRound roundDone) = [] \<and>
      timers (checkRound roundDone) =
        [(600, ActivatePad ''red''), (1600, PlayHumanTurn), (1000, PlayComputerTurn)] \<and>
      computerSequence (snd (playComputerTurn (1 / 2) (checkRound roundDone))) =
        [''red'', ''blue''] \<and>
      timers (snd (playComputerTurn (1 / 2) (checkRound roundDone))) =
        [(600, ActivatePad ''red''), (1600, PlayHumanTurn), (1000, PlayComputerTurn),
         (600, ActivatePad ''red''), (1200, ActivatePad ''blue''), (2200, PlayHumanTurn)]"
    using b c checkRound_outcome [of roundDone 0 redPad]
      checkRound_outcome [of "checkRound roundDone" "1 / 2" bluePad]
    by (simp add: next_core roundDone_core bluePad_def z)
  have e: "(0::real) \<le> 1 / 2" "(1 / 2 :: real) < 1"
    by simp_all
  from a b c d e l(1,2) win rest show ?thesis
    by blast
qed

text \<open>
  Claim C4. The levels 1 to 4 give 8, 14, 20 and 31 (\<open>setLevel_number\<close>), no argument
  gives 8 (\<open>setLevel_default\<close>), and every other number gives the validation message.
  But \<^verbatim>\<open>levelMap[level]\<close> also finds what the object literal inherits: for the level
  \<^verbatim>\<open>"toString"\<close> the lookup is the inherited function, which is truthy, so
  \<^verbatim>\<open>setLevel\<close> stores it in \<^verbatim>\<open>maxRoundCount\<close> and returns it instead of the message.
\<close>
theorem setLevel_inherited_name:
  "setLevel (JStr ''toString'') s =
     (JBuiltin ''toString'', s\<lparr>maxRoundCount := JBuiltin ''toString''\<rparr>)"
  by (simp add: setLevel_def js_get_def js_toString_def levelMap_def objectPrototypeKeys_def
      truthy_def)

theorem setLevel_inherited_name_witness:
  "fst (setLevel (JStr ''toString'') initialGame) = JBuiltin ''toString'' \<and>
   maxRoundCount (snd (setLevel (JStr ''toString'') initialGame)) = JBuiltin ''toString''"
  using setLevel_inherited_name [of initialGame] by simp

text \<open>
  Claim C5, as the code has it. Take a state at the start of the player's turn of a
  round that is not the last: \<^verbatim>\<open>playerSequence\<close> is empty, \<^verbatim>\<open>computerSequence\<close> is not,
  and its length is not \<^verbatim>\<open>maxRoundCount\<close>. Entering the sequence completes the round
  and advances the round counter by one. There is no record that the round has been
  evaluated: entering the same sequence again before the scheduled computer turn runs
  completes the round again, and the counter is two higher. Once the computer's turn
  has appended its signal, entering the sequence of the finished round again leaves
  the counter alone.
\<close>
theorem replayed_round:
  assumes "playerSequence s = []" and "computerSequence s \<noteq> []"
    and "JNum (int (length (computerSequence s))) \<noteq> maxRoundCount s"
  shows "roundCount (pressAll (computerSequence s) s) = roundCount s + 1 \<and>
         roundCount (pressAll (computerSequence s) (pressAll (computerSequence s) s)) =
           roundCount s + 2 \<and>
         (getRandomItem r (pads s) = Ref p \<longrightarrow>
            computerSequence (snd (playComputerTurn r (pressAll (computerSequence s) s))) =
              computerSequence s @ [color p] \<and>
            roundCount (pressAll (computerSequence s)
              (snd (playComputerTurn r (pressAll (computerSequence s) s)))) = roundCount s + 1)"
proof -
  let ?xs = "computerSequence s"
  let ?t = "pressAll ?xs s"
  have "computerSequence s = playerSequence s @ ?xs"
    using assms(1) by simp
  from pressAll_round [OF this assms(2) assms(3)] have t:
    "computerSequence ?t = ?xs" "playerSequence ?t = []" "roundCount ?t = roundCount s + 1"
    "maxRoundCount ?t = maxRoundCount s" "pads ?t = pads s"
    by simp_all
  have "computerSequence ?t = playerSequence ?t @ ?xs"
    by (simp add: t)
  moreover have "JNum (int (length (computerSequence ?t))) \<noteq> maxRoundCount ?t"
    using assms(3) by (simp add: t)
  ultimately have again: "roundCount (pressAll ?xs ?t) = roundCount ?t + 1"
    using pressAll_round [of ?t ?xs] assms(2) by simp
  have after: "computerSequence (snd (playComputerTurn r ?t)) = ?xs @ [color p] \<and>
      roundCount (pressAll ?xs (snd (playComputerTurn r ?t))) = roundCount s + 1"
    if p: "getRandomItem r (pads s) = Ref p"
  proof -
    let ?u = "snd (playComputerTurn r ?t)"
    have q: "getRandomItem r (pads ?t) = Ref p"
      using p by (simp add: t)
    have u: "computerSequence ?u = ?xs @ [color p]" "playerSequence ?u = []"
      "roundCount ?u = roundCount s + 1"
      using playComputerTurn_Ref [OF q] by (simp_all add: t)
    have "computerSequence ?u = playerSequence ?u @ ?xs @ [color p]"
      by (simp add: u)
    from pressAll_prefix [OF this] show ?thesis
      by (simp add: u)
  qed
  show ?thesis
    using t(3) again after by simp
qed

theorem replayed_round_witness:
  "playerSequence roundOne = [] \<and> computerSequence roundOne \<noteq> [] \<and>
   JNum (int (length (computerSequence roundOne))) \<noteq> maxRoundCount roundOne \<and>
   getRandomItem (1 / 2) (pads roundOne) = Ref bluePad \<and>
   roundCount (pressAll (computerSequence roundOne) roundOne) = 2 \<and>
   roundCount (pressAll (computerSequence roundOne)
     (pressAll (computerSequence roundOne) roundOne)) = 3 \<and>
   roundCount (pressAll (computerSequence roundOne)
     (snd (playComputerTurn (1 / 2) (pressAll (computerSequence roundOne) roundOne)))) = 2"
proof -
  have a: "playerSequence roundOne = []" "computerSequence roundOne \<noteq> []"
    "JNum (int (length (computerSequence roundOne))) \<noteq> maxRoundCount roundOne"
    by (simp_all add: roundOne_core)
  have b: "getRandomItem (1 / 2) (pads roundOne) = Ref bluePad"
    by (simp add: roundOne_core getRandomItem_half)
  show ?thesis
    using a b replayed_round [OF a, of "1 / 2" bluePad]
    by (simp add: roundOne_core)
qed

text \<open>
  The claim as stated fails in round one. It is the player's turn with red to repeat:
  pressing red completes the round, which makes it round 2 and leaves the sequence one
  pad long until the scheduled computer turn runs; pressing red once more before that
  makes it round 3.
\<close>

theorem replayed_round_counterexample:
  "roundCount playerTurnOne = 1 \<and>
   roundCount (pressAll [''red''] playerTurnOne) = 2 \<and>
   computerSequence (pressAll [''red''] playerTurnOne) = [''red''] \<and>
   (1000, PlayComputerTurn) \<in> set (timers (pressAll [''red''] playerTurnOne)) \<and>
   roundCount (pressAll [''red''] (pressAll [''red''] playerTurnOne)) = 3"
  by (simp add: checkPress_unfold js_index_def pressed_core playerTurnOne_core checkRound_next)

text \<open>
  Claim C6, as the code has it. \<^verbatim>\<open>padHandler\<close> makes no check of the phase: a press
  whose colour is a pad's is passed to \<^verbatim>\<open>checkPress\<close> in every state. What the script
  does outside the player's turn is mark the pad container: \<^verbatim>\<open>playComputerTurn\<close> and
  \<^verbatim>\<open>resetGame\<close> put the class \<^verbatim>\<open>unclickable\<close> on it, \<^verbatim>\<open>playHumanTurn\<close> takes it
  off. Dropping the clicks on an unclickable container is left to the page.
\<close>
theorem padHandler_forwards:
  "(map_of (dataset ev) ''color'' = Some c \<and> c \<noteq> [] \<and>
    find (\<lambda>p. color p = c) (pads s) = Some p \<longrightarrow>
      padHandler ev s =
        (Some c,
         checkPress c
           (setTimeout (RemoveActivated (selector p)) 500
              (classAdd (selector p) ''activated'' (s\<lparr>played := played s @ [sound p]\<rparr>))))) \<and>
   ''unclickable'' \<in> classList (snd (playComputerTurn r s)) PadContainer \<and>
   ''unclickable'' \<in> classList (resetGame msg s) PadContainer \<and>
   ''unclickable'' \<notin> classList (playHumanTurn s) PadContainer"
  by (simp add: padHandler_def Let_def playComputerTurn_frame resetGame_page
      playHumanTurn_def setText_Element classRemove_def)

theorem padHandler_forwards_witness:
  "map_of (dataset \<lparr>dataset = [(''color'', ''red'')]\<rparr>) ''color'' = Some ''red'' \<and>
   ''red'' \<noteq> [] \<and>
   find (\<lambda>p. color p = ''red'') (pads roundOne) = Some redPad \<and>
   padHandler \<lparr>dataset = [(''color'', ''red'')]\<rparr> roundOne =
     (Some ''red'',
      checkPress ''red''
        (setTimeout (RemoveActivated (selector redPad)) 500
           (classAdd (selector redPad) ''activated''
              (roundOne\<lparr>played := played roundOne @ [sound redPad]\<rparr>))))"
proof -
  have a: "map_of (dataset \<lparr>dataset = [(''color'', ''red'')]\<rparr>) ''color'' = Some ''red''"
    by simp
  have b: "find (\<lambda>p. color p = ''red'') (pads roundOne) = Some redPad"
    by (simp add: roundOne_core find_red)
  show ?thesis
    using a b
      padHandler_forwards [of "\<lparr>dataset = [(''color'', ''red'')]\<rparr>" "''red''" roundOne redPad 0 "[]"]
    by simp
qed

text \<open>
  The claim as stated fails in each phase outside the player's turn. During the
  playback of round one (the container is unclickable, the hand-over to the player is
  pending) a red press completes the round. Between two rounds (the next computer turn
  is pending, the container is still clickable) a red press completes the round once
  more. Before any game has started a press reaches \<^verbatim>\<open>checkPress\<close> and the player is
  told the game is over.
\<close>

theorem padHandler_phase_counterexample:
  "''unclickable'' \<in> classList roundOne PadContainer \<and>
   (1600, PlayHumanTurn) \<in> set (timers roundOne) \<and>
   roundCount roundOne = 1 \<and>
   roundCount (snd (padHandler redClick roundOne)) = 2 \<and>
   ''unclickable'' \<notin> classList betweenRounds PadContainer \<and>
   (1000, PlayComputerTurn) \<in> set (timers betweenRounds) \<and>
   roundCount betweenRounds = 2 \<and>
   roundCount (snd (padHandler redClick betweenRounds)) = 3 \<and>
   alerts initialGame = [] \<and>
   alerts (snd (padHandler redClick initialGame)) = [''Wrong pad! Game over.'']"
  by (simp add: padHandler_red roundOne_core betweenRounds_core checkPress_unfold js_index_def
      pressed_core checkRound_next resetGame_core setTimeout_def classAdd_def initialGame_def)

end
